theory Spec2Isabelle
  imports Complex_Main "HOL-Library.Char_ord" "HOL-Library.List_Lexorder"
    "HOL-Library.Product_Lexorder"
begin

section \<open>Values of the Python program\<close>

text \<open>
  The script \<^verbatim>\<open>create_christmas_linkedin_post.py\<close> is a pipeline of five functions over
  Pillow images.  Python's \<^verbatim>\<open>int\<close> is \<^typ>\<open>int\<close>.  Python's \<^verbatim>\<open>float\<close> is
  modelled by exact arithmetic on \<^typ>\<open>real\<close>: the rounding of IEEE doubles is not
  part of the model.  An exception that the source can raise is a value of \<open>error\<close>.
\<close>

datatype error = ZeroDivisionError | ValueError | OSError

definition py_int :: "real \<Rightarrow> int" where
  \<comment> \<open>\<^verbatim>\<open>int(x)\<close> of a float: truncation towards zero.\<close>
  "py_int x = (if 0 \<le> x then \<lfloor>x\<rfloor> else \<lceil>x\<rceil>)"

subsection \<open>Images\<close>

text \<open>
  An image has a size, a mode and pixel data.  The data of the model are an RGB raster
  and an alpha raster, both indexed by \<open>x\<close> (column) and \<open>y\<close> (row); only the
  positions inside the size are meaningful.  \<^verbatim>\<open>main\<close> converts the base image to RGB
  before any stage sees it, and the logo to RGBA, so every other mode is one constructor.
\<close>

type_synonym colour = "int \<times> int \<times> int"

datatype mode = RGB | RGBA | OtherMode

record image =
  width :: int
  height :: int
  mode :: mode
  pix :: "int \<Rightarrow> int \<Rightarrow> colour"
  alpha :: "int \<Rightarrow> int \<Rightarrow> int"

datatype font = TrueType string int | DefaultFont

text \<open>
  What the script takes from Pillow without computing it itself is a parameter of the
  model: decoding a file, converting between modes, the LANCZOS filter, the blending of
  a masked paste, the font files and the rasteriser of text.
\<close>

record pil =
  Image_open :: "string \<Rightarrow> image option"
  convert_data :: "image \<Rightarrow> mode \<Rightarrow> image"
  lanczos :: "image \<Rightarrow> int \<Rightarrow> int \<Rightarrow> image"
  blend :: "colour \<Rightarrow> colour \<Rightarrow> int \<Rightarrow> colour"
  truetype :: "string \<Rightarrow> int \<Rightarrow> bool"
  textbbox :: "font \<Rightarrow> string \<Rightarrow> int \<times> int \<times> int \<times> int"
  coverage :: "font \<Rightarrow> string \<Rightarrow> int \<Rightarrow> int \<Rightarrow> int"

definition Image_new :: "mode \<Rightarrow> int \<times> int \<Rightarrow> colour \<Rightarrow> image" where
  "Image_new m sz c =
     \<lparr>width = fst sz, height = snd sz, mode = m, pix = (\<lambda>x y. c), alpha = (\<lambda>x y. 255)\<rparr>"

definition convert :: "pil \<Rightarrow> image \<Rightarrow> mode \<Rightarrow> image" where
  \<comment> \<open>\<^verbatim>\<open>img.convert(m)\<close>: same size, mode \<open>m\<close>, data from the library.\<close>
  "convert L img m =
     img\<lparr>mode := m, pix := pix (convert_data L img m), alpha := alpha (convert_data L img m)\<rparr>"

definition resize :: "pil \<Rightarrow> image \<Rightarrow> int \<times> int \<Rightarrow> error + image" where
  \<comment> \<open>\<^verbatim>\<open>img.resize(size, LANCZOS)\<close>: a copy when the size is unchanged; otherwise Pillow
      raises ValueError ("height and width must be > 0") for a side below 1.\<close>
  "resize L img sz =
     (if sz = (width img, height img) then Inr img
      else if fst sz < 1 \<or> snd sz < 1 then Inl ValueError
      else Inr (img\<lparr>width := fst sz, height := snd sz,
                     pix := pix (lanczos L img (fst sz) (snd sz)),
                     alpha := alpha (lanczos L img (fst sz) (snd sz))\<rparr>))"

definition inside :: "image \<Rightarrow> int \<Rightarrow> int \<Rightarrow> bool" where
  "inside img x y = (0 \<le> x \<and> x < width img \<and> 0 \<le> y \<and> y < height img)"

definition covers :: "image \<Rightarrow> int \<times> int \<Rightarrow> int \<Rightarrow> int \<Rightarrow> bool" where
  \<comment> \<open>The position \<open>(x, y)\<close> lies in the box of \<open>src\<close> pasted with its corner at \<open>org\<close>.\<close>
  "covers src org x y =
     (fst org \<le> x \<and> x < fst org + width src \<and> snd org \<le> y \<and> y < snd org + height src)"

definition paste :: "image \<Rightarrow> image \<Rightarrow> int \<times> int \<Rightarrow> image" where
  \<comment> \<open>\<^verbatim>\<open>im.paste(src, (px, py))\<close>: the box is clipped to \<open>im\<close>; \<open>im\<close> keeps its size and mode.\<close>
  "paste im src org =
     im\<lparr>pix := (\<lambda>x y. if inside im x y \<and> covers src org x y
                         then pix src (x - fst org) (y - snd org) else pix im x y)\<rparr>"

definition paste_mask :: "pil \<Rightarrow> image \<Rightarrow> image \<Rightarrow> int \<times> int \<Rightarrow> image \<Rightarrow> image" where
  \<comment> \<open>\<^verbatim>\<open>im.paste(src, (px, py), mask)\<close>: the alpha band of \<open>mask\<close> weighs source against
      destination.\<close>
  "paste_mask L im src org msk =
     im\<lparr>pix := (\<lambda>x y. if inside im x y \<and> covers src org x y
                         then blend L (pix im x y) (pix src (x - fst org) (y - snd org))
                                (alpha msk (x - fst org) (y - snd org))
                         else pix im x y)\<rparr>"

section \<open>Canvas Formatter\<close>

definition linkedin_width :: int where "linkedin_width = 1200"
definition linkedin_height :: int where "linkedin_height = 627"

definition scale :: "image \<Rightarrow> error + real" where
  \<comment> \<open>Lines 251-256: both quotients are float divisions and raise on a zero side.\<close>
  "scale img =
     (let img_width = width img; img_height = height img in
      if img_width = 0 \<or> img_height = 0 then Inl ZeroDivisionError
      else
        let scale_width = of_int linkedin_width / of_int img_width;
            scale_height = of_int linkedin_height / of_int img_height
        in Inr (max scale_width scale_height))"

definition new_size :: "image \<Rightarrow> error + (int \<times> int)" where
  \<comment> \<open>Lines 259-260: \<^verbatim>\<open>new_width\<close> and \<^verbatim>\<open>new_height\<close>.\<close>
  "new_size img =
     (case scale img of
        Inl e \<Rightarrow> Inl e
      | Inr s \<Rightarrow> Inr (py_int (of_int (width img) * s), py_int (of_int (height img) * s)))"

definition format_as_linkedin_post :: "pil \<Rightarrow> image \<Rightarrow> error + image" where
  "format_as_linkedin_post L img =
     (case new_size img of
        Inl e \<Rightarrow> Inl e
      | Inr (new_width, new_height) \<Rightarrow>
          (case resize L img (new_width, new_height) of
             Inl e \<Rightarrow> Inl e
           | Inr img_resized \<Rightarrow>
               let linkedin_img = Image_new RGB (linkedin_width, linkedin_height) (0, 0, 0);
                   paste_x = (linkedin_width - new_width) div 2;
                   paste_y = (linkedin_height - new_height) div 2
               in Inr (paste linkedin_img img_resized (paste_x, paste_y))))"

section \<open>Text Eraser\<close>

definition text_area_height :: "image \<Rightarrow> int" where
  \<comment> \<open>Line 89: \<^verbatim>\<open>int(height * 0.12)\<close>.\<close>
  "text_area_height img = py_int (of_int (height img) * (12 / 100))"

definition text_area_y_start :: "image \<Rightarrow> int" where
  \<comment> \<open>Line 90.\<close>
  "text_area_y_start img = height img - text_area_height img - 30"

definition py_slice :: "int \<Rightarrow> int option \<Rightarrow> int option \<Rightarrow> int list" where
  \<comment> \<open>The indices of \<^verbatim>\<open>a[start:stop]\<close> on an axis of length \<open>n\<close>: a negative bound
      counts from the end, and both bounds are clamped to the axis.\<close>
  "py_slice n start stop =
     (let clamp = (\<lambda>i. if i < 0 then max (n + i) 0 else min i n);
          a = (case start of None \<Rightarrow> 0 | Some i \<Rightarrow> clamp i);
          b = (case stop of None \<Rightarrow> n | Some i \<Rightarrow> clamp i)
      in [a..b - 1])"

definition region :: "image \<Rightarrow> int list \<Rightarrow> int list \<Rightarrow> colour list" where
  \<comment> \<open>\<^verbatim>\<open>img_array[rows, cols].reshape(-1, 3)\<close>: the pixels of the block, row by row.\<close>
  "region img rows cols = concat (map (\<lambda>y. map (\<lambda>x. pix img x y) cols) rows)"

definition sample_regions :: "image \<Rightarrow> colour list list" where
  \<comment> \<open>Lines 94-104.\<close>
  "sample_regions img =
     (let h = height img; w = width img; ys = text_area_y_start img; side_width = w div 4 in
      (if ys > 50
       then [region img (py_slice h (Some (max 0 (ys - 100))) (Some ys)) (py_slice w None None)]
       else []) @
      (if ys > 0
       then [region img (py_slice h (Some (max 0 (ys - 50))) (Some ys))
               (py_slice w None (Some side_width)),
             region img (py_slice h (Some (max 0 (ys - 50))) (Some ys))
               (py_slice w (Some (- side_width)) None)]
       else []))"

definition mean_color :: "colour list \<Rightarrow> error + colour" where
  \<comment> \<open>\<^verbatim>\<open>tuple(map(int, np.mean(pixels, axis=0)))\<close>: the mean of no pixels is NaN, and
      \<^verbatim>\<open>int\<close> of NaN raises ValueError.\<close>
  "mean_color ps =
     (if ps = [] then Inl ValueError
      else
        let n = of_int (int (length ps)) in
        Inr (py_int (of_int (sum_list (map fst ps)) / n),
             py_int (of_int (sum_list (map (\<lambda>p. fst (snd p)) ps)) / n),
             py_int (of_int (sum_list (map (\<lambda>p. snd (snd p)) ps)) / n)))"

definition avg_color :: "image \<Rightarrow> error + colour" where
  \<comment> \<open>Lines 107-112.\<close>
  "avg_color img =
     (if sample_regions img = []
      then mean_color (region img (py_slice (height img) None (Some (height img div 4)))
                         (py_slice (width img) None None))
      else mean_color (concat (sample_regions img)))"

definition rectangle :: "image \<Rightarrow> int \<times> int \<Rightarrow> int \<times> int \<Rightarrow> colour \<Rightarrow> image" where
  \<comment> \<open>\<^verbatim>\<open>draw.rectangle([p0, p1], fill=c)\<close>: both corners belong to the box, which is
      clipped to the image.  Both calls of the source have \<open>p0 \<le> p1\<close>.\<close>
  "rectangle img p0 p1 c =
     img\<lparr>pix := (\<lambda>x y. if inside img x y \<and> fst p0 \<le> x \<and> x \<le> fst p1
                              \<and> snd p0 \<le> y \<and> y \<le> snd p1
                         then c else pix img x y)\<rparr>"

definition blend_samples :: "image \<Rightarrow> colour list" where
  \<comment> \<open>Lines 128-133; \<^verbatim>\<open>range(-20, 0, 5)\<close> is \<open>[-20, -15, -10, -5]\<close>.\<close>
  "blend_samples img =
     (let h = height img; w = width img; ys = text_area_y_start img in
      concat (map (\<lambda>x_offset.
        concat (map (\<lambda>y_offset.
          let y_pos = ys + y_offset in
          if 0 \<le> y_pos \<and> y_pos < h \<and> 0 \<le> x_offset \<and> x_offset < w
          then [pix img x_offset y_pos] else [])
          [- 20, - 15, - 10, - 5]))
        [w div 4, w div 2, 3 * w div 4]))"

definition blended_color :: "colour \<Rightarrow> colour \<Rightarrow> int \<Rightarrow> int \<Rightarrow> colour" where
  \<comment> \<open>Lines 139-143 for the loop index \<open>i\<close>; \<open>t\<close> is \<^verbatim>\<open>text_area_height\<close>.\<close>
  "blended_color avg bl t i =
     (let al = of_int i / of_int t;
          mix = (\<lambda>a b. py_int (of_int a * (1 - al) + of_int b * al))
      in (mix (fst avg) (fst bl), mix (fst (snd avg)) (fst (snd bl)),
          mix (snd (snd avg)) (snd (snd bl))))"

definition strip :: "image \<Rightarrow> colour \<Rightarrow> colour \<Rightarrow> nat \<Rightarrow> image \<Rightarrow> image" where
  \<comment> \<open>Lines 139-146: the body of the loop, drawing on \<open>d\<close>; \<open>img\<close> gives the geometry.\<close>
  "strip img avg bl i d =
     (let y_pos = text_area_y_start img + int i in
      if y_pos < height img
      then rectangle d (0, y_pos) (width img, y_pos + 1)
             (blended_color avg bl (text_area_height img) (int i))
      else d)"

definition gradient :: "image \<Rightarrow> colour \<Rightarrow> colour \<Rightarrow> image \<Rightarrow> image" where
  \<comment> \<open>Line 138: \<^verbatim>\<open>for i in range(text_area_height)\<close>.\<close>
  "gradient img avg bl d = fold (strip img avg bl) [0..<nat (text_area_height img)] d"

definition remove_text_from_image :: "image \<Rightarrow> string \<Rightarrow> error + image" where
  \<comment> \<open>The samples are read from \<^verbatim>\<open>img_array\<close>, a copy taken before anything is drawn.
      \<^verbatim>\<open>text_to_remove\<close> is never read.\<close>
  "remove_text_from_image img text_to_remove =
     (case avg_color img of
        Inl e \<Rightarrow> Inl e
      | Inr avg \<Rightarrow>
          let drawn = rectangle img (0, text_area_y_start img) (width img, height img) avg in
          if text_area_y_start img > 20 \<and> blend_samples img \<noteq> []
          then (case mean_color (blend_samples img) of
                  Inl e \<Rightarrow> Inl e
                | Inr blend_color \<Rightarrow> Inr (gradient img avg blend_color drawn))
          else Inr drawn)"

section \<open>Logo Compositor\<close>

text \<open>What the script prints, one constructor for each \<^verbatim>\<open>print\<close> (or block of them).\<close>

datatype msg =
    SearchingForImageFiles
  | ErrorChristmasImageNotFoundAt string
  | WarningLogoNotFoundAt string
  | ContinuingWithoutLogo
  | ErrorChristmasImageNotFound
  | Usage
  | WarningLogoFileNotFound
  | LookingForLogoNames
  | FoundChristmasImage string
  | FoundLogo string
  | LoadedChristmasImage int int
  | ErrorLoadingChristmasImage
  | RemovingText
  | AddingLogo
  | ErrorAddingLogo error
  | AddingMessage string
  | FormattingAsLinkedInPost
  | SavedLinkedInPostTo string
  | Dimensions int int

type_synonym box = "int \<times> int \<times> int \<times> int"

definition logo_size :: "image \<Rightarrow> image \<Rightarrow> error + (int \<times> int)" where
  \<comment> \<open>Lines 159-161: \<^verbatim>\<open>logo_width\<close> and \<^verbatim>\<open>logo_height\<close>.\<close>
  "logo_size base_img logo =
     (let base_width = width base_img;
          logo_width = py_int (of_int base_width * (15 / 100))
      in if width logo = 0 then Inl ZeroDivisionError
         else Inr (logo_width,
                   py_int (of_int logo_width * (of_int (height logo) / of_int (width logo)))))"

definition logo_origin :: "string \<Rightarrow> image \<Rightarrow> int \<times> int \<Rightarrow> int \<times> int" where
  \<comment> \<open>Lines 165-176.\<close>
  "logo_origin position base_img sz =
     (let base_width = width base_img; base_height = height base_img;
          logo_width = fst sz; logo_height = snd sz
      in if position = ''bottom_left'' then (40, base_height - logo_height - 40)
         else if position = ''bottom_right''
         then (base_width - logo_width - 40, base_height - logo_height - 40)
         else if position = ''top_left'' then (40, 40)
         else (base_width - logo_width - 40, 40))"

definition try_add_logo :: "pil \<Rightarrow> image \<Rightarrow> string \<Rightarrow> string \<Rightarrow> error + (image \<times> box)" where
  \<comment> \<open>Lines 153-180, the body of the \<^verbatim>\<open>try\<close>.\<close>
  "try_add_logo L base_img logo_path position =
     (case Image_open L logo_path of
        None \<Rightarrow> Inl OSError
      | Some opened \<Rightarrow>
          let logo = (if mode opened = RGBA then opened else convert L opened RGBA) in
          (case logo_size base_img logo of
             Inl e \<Rightarrow> Inl e
           | Inr sz \<Rightarrow>
               (case resize L logo sz of
                  Inl e \<Rightarrow> Inl e
                | Inr resized \<Rightarrow>
                    let org = logo_origin position base_img sz in
                    Inr (paste_mask L base_img resized org resized,
                         (fst org, snd org, fst sz, snd sz)))))"

definition add_logo_to_image ::
  "pil \<Rightarrow> image \<Rightarrow> string \<Rightarrow> string \<Rightarrow> msg list \<times> image \<times> box option" where
  \<comment> \<open>Lines 181-183: every exception ends as a message, the base image and \<^verbatim>\<open>None\<close>.\<close>
  "add_logo_to_image L base_img logo_path position =
     (case try_add_logo L base_img logo_path position of
        Inl e \<Rightarrow> ([ErrorAddingLogo e], base_img, None)
      | Inr (pasted, b) \<Rightarrow> ([], pasted, Some b))"

section \<open>Caption Renderer\<close>

definition load_font :: "pil \<Rightarrow> image \<Rightarrow> font" where
  \<comment> \<open>Lines 191-202; \<open>truetype L path size\<close> says that \<^verbatim>\<open>ImageFont.truetype\<close> returns.\<close>
  "load_font L img =
     (let font_size = py_int (of_int (height img) * (45 / 1000)) in
      if truetype L ''/usr/share/fonts/truetype/dejavu/DejaVuSans-Bold.ttf'' font_size
      then TrueType ''/usr/share/fonts/truetype/dejavu/DejaVuSans-Bold.ttf'' font_size
      else if truetype L ''/usr/share/fonts/truetype/liberation/LiberationSans-Bold.ttf''
                font_size
      then TrueType ''/usr/share/fonts/truetype/liberation/LiberationSans-Bold.ttf'' font_size
      else DefaultFont)"

definition text_width :: "pil \<Rightarrow> image \<Rightarrow> string \<Rightarrow> int" where
  \<comment> \<open>Lines 220-221: \<^verbatim>\<open>bbox[2] - bbox[0]\<close>.\<close>
  "text_width L img txt =
     (let bbox = textbbox L (load_font L img) txt in fst (snd (snd bbox)) - fst bbox)"

definition text_position ::
  "pil \<Rightarrow> image \<Rightarrow> string \<Rightarrow> string \<Rightarrow> box option \<Rightarrow> int \<times> int" where
  \<comment> \<open>Lines 205-231: \<^verbatim>\<open>(text_x, text_y)\<close> as the main text is drawn.  A box is a
      non-empty tuple, so \<^verbatim>\<open>logo_info\<close> is true exactly when it is not \<^verbatim>\<open>None\<close>.\<close>
  "text_position L img txt position logo_info =
     (let w = width img; h = height img;
          first = (case logo_info of
                     Some (x, y, logo_w, logo_h) \<Rightarrow>
                       if position = ''below_logo'' then (x, y + logo_h + 30)
                       else (w div 2, h - 120)
                   | None \<Rightarrow> (w div 2, h - 120));
          text_x = fst first; text_y = snd first;
          tw = text_width L img txt
      in if position = ''center_bottom'' then ((w - tw) div 2, text_y)
         else if position = ''below_logo'' \<and> logo_info \<noteq> None
         then (if text_x + tw > w - 40 then ((w - tw) div 2, text_y) else (text_x, text_y))
         else (text_x, text_y))"

definition draw_text ::
  "pil \<Rightarrow> image \<Rightarrow> int \<times> int \<Rightarrow> string \<Rightarrow> font \<Rightarrow> colour \<Rightarrow> image" where
  \<comment> \<open>\<^verbatim>\<open>draw.text(org, txt, font=f, fill=c)\<close>: the rasteriser's coverage of each pixel,
      relative to \<open>org\<close>, weighs the fill colour against the image.\<close>
  "draw_text L img org txt f c =
     img\<lparr>pix := (\<lambda>x y. if inside img x y
                         then blend L (pix img x y) c (coverage L f txt (x - fst org) (y - snd org))
                         else pix img x y)\<rparr>"

definition outline_offsets :: "(int \<times> int) list" where
  \<comment> \<open>Lines 234-237, with \<^verbatim>\<open>outline_width = 3\<close>.\<close>
  "outline_offsets =
     concat (map (\<lambda>adj. concat (map (\<lambda>adj2. if (adj, adj2) = (0, 0) then [] else [(adj, adj2)])
                                   [- 3..3])) [- 3..3])"

definition add_text_to_image ::
  "pil \<Rightarrow> image \<Rightarrow> string \<Rightarrow> string \<Rightarrow> box option \<Rightarrow> image" where
  "add_text_to_image L img txt position logo_info =
     (let f = load_font L img;
          p = text_position L img txt position logo_info;
          outlined = fold (\<lambda>adj d. draw_text L d (fst p + fst adj, snd p + snd adj) txt f (0, 0, 0))
                       outline_offsets img
      in draw_text L outlined p txt f (255, 255, 255))"

section \<open>File Locator\<close>

text \<open>
  File names and paths are strings of ASCII characters.  A directory lists its files
  and its subdirectories in the order the operating system returns them.  A missing
  root is walked like an empty directory.
\<close>

datatype tree = Dir "string list" "(string \<times> tree) list"

record os =
  workspace :: tree
  getsize :: "string \<Rightarrow> nat option"
  path_exists :: "string \<Rightarrow> bool"
  writable :: "string \<Rightarrow> bool"

fun startswith :: "string \<Rightarrow> string \<Rightarrow> bool" where
  "startswith s [] = True"
| "startswith [] (p # ps) = False"
| "startswith (c # cs) (p # ps) = (c = p \<and> startswith cs ps)"

definition endswith :: "string \<Rightarrow> string \<Rightarrow> bool" where
  "endswith s p = startswith (rev s) (rev p)"

fun contains :: "string \<Rightarrow> string \<Rightarrow> bool" where
  \<comment> \<open>\<^verbatim>\<open>p in s\<close>.\<close>
  "contains [] p = (p = [])"
| "contains (c # cs) p = (startswith (c # cs) p \<or> contains cs p)"

definition lower_char :: "char \<Rightarrow> char" where
  "lower_char c =
     (case map_of (zip ''ABCDEFGHIJKLMNOPQRSTUVWXYZ'' ''abcdefghijklmnopqrstuvwxyz'') c of
        Some d \<Rightarrow> d
      | None \<Rightarrow> c)"

definition lower :: "string \<Rightarrow> string" where
  "lower s = map lower_char s"

definition join :: "string \<Rightarrow> string \<Rightarrow> string" where
  \<comment> \<open>\<^verbatim>\<open>os.path.join(root, name)\<close> for a name that is not absolute.\<close>
  "join dirpath name =
     (if dirpath = [] \<or> endswith dirpath ''/'' then dirpath @ name
      else dirpath @ ''/'' @ name)"

fun walk :: "string \<Rightarrow> tree \<Rightarrow> (string \<times> string list) list" where
  \<comment> \<open>\<^verbatim>\<open>os.walk\<close>, top down, with the pruning of line 25: a hidden directory is not
      entered.  Each element is \<^verbatim>\<open>(root, filenames)\<close>.\<close>
  "walk dirpath (Dir filenames dirs) =
     (dirpath, filenames) #
     concat (map (\<lambda>d. if startswith (fst d) ''.'' then [] else walk (join dirpath (fst d)) (snd d))
               dirs)"

definition image_extensions :: "string list" where
  "image_extensions =
     [''.jpg'', ''.jpeg'', ''.png'', ''.gif'', ''.webp'',
      ''.JPG'', ''.JPEG'', ''.PNG'', ''.GIF'', ''.WEBP'']"

definition is_image :: "string \<Rightarrow> bool" where
  \<comment> \<open>Line 32.\<close>
  "is_image filename = list_ex (\<lambda>ext. endswith (lower filename) (lower ext)) image_extensions"

record found =
  files :: "string \<rightharpoonup> string"
  all_images :: "(string \<times> string) list"

definition visit :: "string \<Rightarrow> string \<Rightarrow> found \<Rightarrow> found" where
  \<comment> \<open>Lines 27-43: the body of the inner loop for one file name.\<close>
  "visit dirpath filename st =
     (if startswith filename ''.'' \<or> endswith filename ''.py'' \<or> endswith filename ''.html''
      then st
      else if is_image filename then
        let filepath = join dirpath filename;
            filename_lower = lower filename;
            st1 = st\<lparr>all_images := all_images st @ [(filepath, filename_lower)]\<rparr>
        in if contains filename_lower ''christmas'' \<and> \<not> contains filename_lower ''logo''
           then (if files st1 ''christmas'' = None
                 then st1\<lparr>files := (files st1)(''christmas'' \<mapsto> filepath)\<rparr> else st1)
           else if (contains filename_lower ''logo'' \<or> contains filename_lower ''nimex'')
                   \<and> files st1 ''logo'' = None
           then st1\<lparr>files := (files st1)(''logo'' \<mapsto> filepath)\<rparr>
           else st1
      else st)"

definition scan :: "tree \<Rightarrow> found" where
  \<comment> \<open>Lines 19-43: both loops over \<^verbatim>\<open>os.walk('/workspace')\<close>.\<close>
  "scan t =
     fold (\<lambda>entry st. fold (visit (fst entry)) (snd entry) st) (walk ''/workspace'' t)
       \<lparr>files = Map.empty, all_images = []\<rparr>"

definition image_sizes :: "os \<Rightarrow> (string \<times> string) list \<Rightarrow> (nat \<times> string) list" where
  \<comment> \<open>Lines 50-56: a file whose size cannot be read is passed over.\<close>
  "image_sizes E imgs =
     concat (map (\<lambda>entry. case getsize E (fst entry) of
                             Some sz \<Rightarrow> [(sz, fst entry)]
                           | None \<Rightarrow> []) imgs)"

definition sort_reverse :: "(nat \<times> string) list \<Rightarrow> (nat \<times> string) list" where
  \<comment> \<open>\<^verbatim>\<open>list.sort(reverse=True)\<close> on tuples: descending by size, then by path.\<close>
  "sort_reverse xs = rev (sort xs)"

definition pick_christmas :: "os \<Rightarrow> found \<Rightarrow> found" where
  \<comment> \<open>Lines 48-59.\<close>
  "pick_christmas E st =
     (if files st ''christmas'' = None
      then (case sort_reverse (image_sizes E (all_images st)) of
              [] \<Rightarrow> st
            | largest # _ \<Rightarrow> st\<lparr>files := (files st)(''christmas'' \<mapsto> snd largest)\<rparr>)
      else st)"

definition pick_logo :: "os \<Rightarrow> found \<Rightarrow> found" where
  \<comment> \<open>Lines 62-72: the first image that is not the base image and is under 5 MiB.\<close>
  "pick_logo E st =
     (if files st ''logo'' = None
      then (case find (\<lambda>entry. Some (fst entry) \<noteq> files st ''christmas''
                          \<and> (case getsize E (fst entry) of
                                Some sz \<Rightarrow> sz < 5 * 1024 * 1024
                              | None \<Rightarrow> False))
                   (all_images st) of
              None \<Rightarrow> st
            | Some entry \<Rightarrow> st\<lparr>files := (files st)(''logo'' \<mapsto> fst entry)\<rparr>)
      else st)"

definition find_image_files :: "os \<Rightarrow> (string \<rightharpoonup> string)" where
  "find_image_files E =
     (let st = scan (workspace E) in
      if all_images st = [] then files st
      else files (pick_logo E (pick_christmas E st)))"

section \<open>The pipeline\<close>

record args =
  christmas_image :: "string option"
  logo :: "string option"
  output_path :: string

datatype outcome = Exit int | Raised error | Saved string image

definition truthy :: "string option \<Rightarrow> bool" where
  \<comment> \<open>Python's truth value of an optional string: \<^verbatim>\<open>None\<close> and the empty string are false.\<close>
  "truthy v = (case v of None \<Rightarrow> False | Some s \<Rightarrow> s \<noteq> [])"

definition path_of :: "string option \<Rightarrow> string" where
  "path_of v = (case v of None \<Rightarrow> [] | Some s \<Rightarrow> s)"

definition message :: string where
  "message = ''May this christmas bring prosperity, love and success to your life''"

definition override_logo ::
  "os \<Rightarrow> args \<Rightarrow> (string \<rightharpoonup> string) \<Rightarrow> msg list \<times> (string \<rightharpoonup> string)" where
  \<comment> \<open>Lines 293-298.\<close>
  "override_logo E a image_files =
     (if truthy (logo a)
      then (if path_exists E (path_of (logo a))
            then ([], image_files(''logo'' \<mapsto> path_of (logo a)))
            else ([WarningLogoNotFoundAt (path_of (logo a)), ContinuingWithoutLogo], image_files))
      else ([], image_files))"

definition compose ::
  "os \<Rightarrow> pil \<Rightarrow> args \<Rightarrow> (string \<rightharpoonup> string) \<Rightarrow> image \<Rightarrow> msg list \<times> outcome" where
  \<comment> \<open>Lines 329-352, from the loaded RGB image to the saved file.  An exception that
      no handler catches ends the run as \<open>Raised\<close>.\<close>
  "compose E L a image_files christmas_img =
     (case remove_text_from_image christmas_img ''and happy newyear'' of
        Inl e \<Rightarrow> ([RemovingText], Raised e)
      | Inr erased \<Rightarrow>
          let with_logo =
                (if truthy (image_files ''logo'')
                 then (case add_logo_to_image L erased (path_of (image_files ''logo''))
                              ''bottom_left'' of
                         (printed, img, logo_info) \<Rightarrow> (AddingLogo # printed, img, logo_info))
                 else ([], erased, None));
              logo_info = snd (snd with_logo);
              captioned =
                add_text_to_image L (fst (snd with_logo)) message
                  (if logo_info = None then ''center_bottom'' else ''below_logo'') logo_info;
              printed = [RemovingText] @ fst with_logo @
                        [AddingMessage message, FormattingAsLinkedInPost]
          in (case format_as_linkedin_post L captioned of
                Inl e \<Rightarrow> (printed, Raised e)
              | Inr linkedin_post \<Rightarrow>
                  if writable E (output_path a)
                  then (printed @ [SavedLinkedInPostTo (output_path a),
                                   Dimensions (width linkedin_post) (height linkedin_post)],
                        Saved (output_path a) linkedin_post)
                  else (printed, Raised OSError)))"

definition main :: "os \<Rightarrow> pil \<Rightarrow> args \<Rightarrow> msg list \<times> outcome" where
  "main E L a =
     (let located = find_image_files E in
      if truthy (christmas_image a) \<and> \<not> path_exists E (path_of (christmas_image a))
      then ([SearchingForImageFiles,
             ErrorChristmasImageNotFoundAt (path_of (christmas_image a))], Exit 1)
      else
        let with_base = (if truthy (christmas_image a)
                         then located(''christmas'' \<mapsto> path_of (christmas_image a))
                         else located);
            overridden = override_logo E a with_base;
            image_files = snd overridden;
            printed1 = SearchingForImageFiles # fst overridden
        in if \<not> truthy (image_files ''christmas'')
           then (printed1 @ [ErrorChristmasImageNotFound, Usage], Exit 1)
           else
             let printed2 = printed1 @
                   (if truthy (image_files ''logo'') then []
                    else [WarningLogoFileNotFound, LookingForLogoNames, ContinuingWithoutLogo]) @
                   [FoundChristmasImage (path_of (image_files ''christmas''))] @
                   (if truthy (image_files ''logo'')
                    then [FoundLogo (path_of (image_files ''logo''))] else [])
             in (case Image_open L (path_of (image_files ''christmas'')) of
                   None \<Rightarrow> (printed2 @ [ErrorLoadingChristmasImage], Exit 1)
                 | Some opened \<Rightarrow>
                     let christmas_img = (if mode opened = RGB then opened
                                          else convert L opened RGB);
                         result = compose E L a image_files christmas_img
                     in (printed2 @
                         [LoadedChristmasImage (width christmas_img) (height christmas_img)] @
                         fst result, snd result)))"

section \<open>Example inputs\<close>


definition card :: image where
  \<comment> \<open>An 8 by 40 RGB image whose rows differ.\<close>
  "card = \<lparr>width = 8, height = 40, mode = RGB, pix = (\<lambda>x y. (y, 2 * y, 100)),
            alpha = (\<lambda>x y. 255)\<rparr>"

definition tall :: image where
  \<comment> \<open>A 4 by 57 RGB image: twelve black rows above rows of one colour.\<close>
  "tall = \<lparr>width = 4, height = 57, mode = RGB,
            pix = (\<lambda>x y. if y < 12 then (0, 0, 0) else (200, 100, 50)),
            alpha = (\<lambda>x y. 255)\<rparr>"



section \<open>Properties of the Canvas Formatter\<close>

lemma py_int_lower: "of_int k \<le> x \<Longrightarrow> 0 \<le> k \<Longrightarrow> k \<le> py_int x"
  by (simp add: py_int_def le_floor_iff)








section \<open>Properties of the Text Eraser\<close>

lemma rectangle_geom [simp]:
  "width (rectangle d p0 p1 c) = width d" "height (rectangle d p0 p1 c) = height d"
  "mode (rectangle d p0 p1 c) = mode d" "alpha (rectangle d p0 p1 c) = alpha d"
  by (simp_all add: rectangle_def)

lemma inside_rectangle [simp]: "inside (rectangle d p0 p1 c) x y = inside d x y"
  by (simp add: inside_def)

lemma pix_rectangle:
  "pix (rectangle d p0 p1 c) x y =
     (if inside d x y \<and> fst p0 \<le> x \<and> x \<le> fst p1 \<and> snd p0 \<le> y \<and> y \<le> snd p1
      then c else pix d x y)"
  by (simp add: rectangle_def)

lemma strip_geom [simp]:
  "width (strip img avg bl i d) = width d" "height (strip img avg bl i d) = height d"
  "mode (strip img avg bl i d) = mode d" "alpha (strip img avg bl i d) = alpha d"
  by (simp_all add: strip_def Let_def)

lemma fold_strip_geom [simp]:
  "width (fold (strip img avg bl) is d) = width d"
  "height (fold (strip img avg bl) is d) = height d"
  "mode (fold (strip img avg bl) is d) = mode d"
  "alpha (fold (strip img avg bl) is d) = alpha d"
  by (induction "is" arbitrary: d; simp)+

lemma band_height: "text_area_y_start img + text_area_height img + 30 = height img"
  by (simp add: text_area_y_start_def)

lemma pix_strip:
  assumes "text_area_y_start img + int i < height img"
    and "width d = width img" and "height d = height img"
  shows "pix (strip img avg bl i d) x y =
     (if inside img x y \<and> (y = text_area_y_start img + int i
                            \<or> y = text_area_y_start img + int i + 1)
      then blended_color avg bl (text_area_height img) (int i) else pix d x y)"
proof -
  have ins: "inside d x y = inside img x y"
    using assms(2,3) by (simp add: inside_def)
  have rows: "(text_area_y_start img + int i \<le> y \<and> y \<le> text_area_y_start img + int i + 1)
      = (y = text_area_y_start img + int i \<or> y = text_area_y_start img + int i + 1)"
    by linarith
  have cols: "inside img x y \<Longrightarrow> 0 \<le> x \<and> x \<le> width img"
    by (simp add: inside_def)
  show ?thesis
  proof (cases "inside img x y")
    case True
    with cols have "0 \<le> x" "x \<le> width img" by simp_all
    then show ?thesis
      using assms(1) True rows by (simp add: strip_def Let_def pix_rectangle ins)
  next
    case False
    then show ?thesis
      using assms(1) by (simp add: strip_def Let_def pix_rectangle ins)
  qed
qed

lemma fold_strip_pix:
  assumes "width d = width img" and "height d = height img"
    and "n \<le> nat (text_area_height img)"
  shows "pix (fold (strip img avg bl) [0..<n] d) x y =
     (if inside img x y \<and> text_area_y_start img \<le> y \<and> y < text_area_y_start img + int n
      then blended_color avg bl (text_area_height img) (y - text_area_y_start img)
      else if inside img x y \<and> 0 < n \<and> y = text_area_y_start img + int n
      then blended_color avg bl (text_area_height img) (int n - 1)
      else pix d x y)"
  using assms(3)
proof (induction n)
  case 0
  show ?case by (cases "text_area_y_start img \<le> y") simp_all
next
  case (Suc n)
  let ?ys = "text_area_y_start img"
  let ?G = "fold (strip img avg bl) [0..<n] d"
  let ?c = "blended_color avg bl (text_area_height img)"
  from Suc.prems have n: "int n < text_area_height img" by linarith
  then have below: "?ys + int n < height img"
    using band_height [of img] by linarith
  have geom: "width ?G = width img" "height ?G = height img"
    using assms(1,2) by simp_all
  have ih: "pix ?G x y =
     (if inside img x y \<and> ?ys \<le> y \<and> y < ?ys + int n then ?c (y - ?ys)
      else if inside img x y \<and> 0 < n \<and> y = ?ys + int n then ?c (int n - 1)
      else pix d x y)"
    using Suc by simp
  have step: "pix (fold (strip img avg bl) [0..<Suc n] d) x y =
     (if inside img x y \<and> (y = ?ys + int n \<or> y = ?ys + int n + 1)
      then ?c (int n) else pix ?G x y)"
    using pix_strip [OF below geom] by simp
  let ?L = "pix (fold (strip img avg bl) [0..<Suc n] d) x y"
  let ?R = "if inside img x y \<and> ?ys \<le> y \<and> y < ?ys + int (Suc n) then ?c (y - ?ys)
      else if inside img x y \<and> 0 < Suc n \<and> y = ?ys + int (Suc n) then ?c (int (Suc n) - 1)
      else pix d x y"
  have "?L = ?R"
  proof (cases "inside img x y")
    case False
    have l: "?L = pix d x y" using step ih False by simp
    have r: "?R = pix d x y" using False by simp
    show ?thesis by (simp only: l r)
  next
    case True
    consider (above) "y < ?ys" | (old) "?ys \<le> y" "y < ?ys + int n"
      | (top) "y = ?ys + int n" | (bot) "y = ?ys + int n + 1" | (rest) "?ys + int n + 1 < y"
      by linarith
    then show ?thesis
    proof cases
      case above
      have l: "?L = pix d x y" using step ih above by simp
      have r: "?R = pix d x y" using above by simp
      show ?thesis by (simp only: l r)
    next
      case old
      have l: "?L = ?c (y - ?ys)" using step ih old True by simp
      have r: "?R = ?c (y - ?ys)" using old True by simp
      show ?thesis by (simp only: l r)
    next
      case top
      have l: "?L = ?c (int n)" using step top True by simp
      have r: "?R = ?c (int n)" using top True by simp
      show ?thesis by (simp only: l r)
    next
      case bot
      have l: "?L = ?c (int n)" using step bot True by simp
      have r: "?R = ?c (int n)" using bot True by simp
      show ?thesis by (simp only: l r)
    next
      case rest
      have l: "?L = pix d x y" using step ih rest by simp
      have r: "?R = pix d x y" using rest by simp
      show ?thesis by (simp only: l r)
    qed
  qed
  then show ?case .
qed

lemma py_int_of_int [simp]: "py_int (of_int k) = k"
  by (simp add: py_int_def)

lemma height_pos:
  assumes "0 < text_area_y_start img"
  shows "0 < height img"
proof (rule ccontr)
  assume "\<not> 0 < height img"
  then have h: "height img \<le> 0" by simp
  then have "(of_int (height img) :: real) \<le> of_int (height img) * (12 / 100)"
    by (simp add: mult_le_cancel_left2)
  moreover have "of_int (height img) * (12 / 100) \<le> (0::real)"
    using h by (simp add: mult_le_0_iff)
  ultimately have "height img \<le> text_area_height img"
    by (auto simp: text_area_height_def py_int_def le_ceiling_iff le_floor_iff)
  then show False
    using assms h by (simp add: text_area_y_start_def)
qed

lemma text_area_height_nonneg: "0 \<le> height img \<Longrightarrow> 0 \<le> text_area_height img"
  by (simp add: text_area_height_def py_int_def)

lemma text_area_height_smoothing:
  assumes "20 < text_area_y_start img"
  shows "6 \<le> text_area_height img"
proof -
  have h: "0 < height img" using assms by (intro height_pos) simp
  then have "0 \<le> text_area_height img" by (simp add: text_area_height_nonneg)
  then have "51 \<le> height img"
    using assms by (simp add: text_area_y_start_def)
  then have "(51::real) \<le> of_int (height img)" by linarith
  then have "of_int 6 \<le> (of_int (height img) :: real) * (12 / 100)" by simp
  then show ?thesis
    unfolding text_area_height_def by (intro py_int_lower) simp_all
qed

lemma region_Nil: "region img rows cols = [] \<longleftrightarrow> rows = [] \<or> cols = []"
  by (cases rows) (auto simp: region_def)

lemma mean_color_total: "ps \<noteq> [] \<Longrightarrow> \<exists>c. mean_color ps = Inr c"
  by (simp add: mean_color_def Let_def)

lemma right_columns: "0 < w \<Longrightarrow> py_slice w (Some (- (w div 4))) None \<noteq> []"
  by (auto simp: py_slice_def Let_def upto_Nil)

lemma sample_rows:
  assumes "0 < ys" and "ys \<le> h"
  shows "py_slice h (Some (max 0 (ys - 50))) (Some ys) \<noteq> []"
  using assms by (auto simp: py_slice_def Let_def upto_Nil max_def min_def)

lemma avg_color_total:
  assumes "0 < text_area_y_start img" and "0 < width img"
  shows "\<exists>avg. avg_color img = Inr avg"
proof -
  have "0 < height img" using assms(1) by (rule height_pos)
  then have "0 \<le> text_area_height img" by (simp add: text_area_height_nonneg)
  then have le: "text_area_y_start img \<le> height img"
    by (simp add: text_area_y_start_def)
  let ?right = "region img
      (py_slice (height img) (Some (max 0 (text_area_y_start img - 50)))
         (Some (text_area_y_start img)))
      (py_slice (width img) (Some (- (width img div 4))) None)"
  have r: "?right \<noteq> []"
    using sample_rows [OF assms(1) le] right_columns [OF assms(2)]
    by (simp add: region_Nil)
  have "?right \<in> set (sample_regions img)"
    using assms(1) by (simp add: sample_regions_def Let_def)
  with r have ne: "sample_regions img \<noteq> []" and c: "concat (sample_regions img) \<noteq> []"
    by auto
  from mean_color_total [OF c] obtain avg
    where "mean_color (concat (sample_regions img)) = Inr avg" ..
  with ne have "avg_color img = Inr avg" by (simp add: avg_color_def)
  then show ?thesis ..
qed

lemma blend_samples_nonempty:
  assumes "20 < text_area_y_start img" and "0 < width img"
  shows "blend_samples img \<noteq> []"
proof -
  have "6 \<le> text_area_height img" using assms(1) by (rule text_area_height_smoothing)
  then have "text_area_y_start img + - 20 < height img"
    by (simp add: text_area_y_start_def)
  moreover have "0 \<le> width img div 4" "width img div 4 < width img"
    using assms(2) by simp_all
  ultimately show ?thesis
    using assms(1) by (simp add: blend_samples_def Let_def)
qed


lemma gradient_geom [simp]:
  "width (gradient img avg bl d) = width d" "height (gradient img avg bl d) = height d"
  "mode (gradient img avg bl d) = mode d" "alpha (gradient img avg bl d) = alpha d"
  by (simp_all add: gradient_def)

lemma remove_text_cases:
  assumes "remove_text_from_image img t = Inr r"
  shows "\<exists>avg. avg_color img = Inr avg \<and>
     (r = rectangle img (0, text_area_y_start img) (width img, height img) avg \<or>
      (\<exists>bl. r = gradient img avg bl
                 (rectangle img (0, text_area_y_start img) (width img, height img) avg)))"
proof (cases "avg_color img")
  case (Inl e)
  with assms show ?thesis by (simp add: remove_text_from_image_def)
next
  case (Inr avg)
  show ?thesis
  proof (cases "text_area_y_start img > 20 \<and> blend_samples img \<noteq> []")
    case False
    with assms Inr show ?thesis
      by (simp add: remove_text_from_image_def Let_def split: if_splits)
  next
    case True
    show ?thesis
    proof (cases "mean_color (blend_samples img)")
      case (Inl e)
      with assms Inr True show ?thesis
        by (simp add: remove_text_from_image_def Let_def)
    next
      case bl: (Inr bl)
      with assms Inr True have "r = gradient img avg bl
          (rectangle img (0, text_area_y_start img) (width img, height img) avg)"
        by (simp add: remove_text_from_image_def Let_def)
      with Inr show ?thesis by blast
    qed
  qed
qed

lemma gradient_above:
  assumes "width d = width img" and "height d = height img" and "y < text_area_y_start img"
  shows "pix (gradient img avg bl d) x y = pix d x y"
proof -
  have "\<not> text_area_y_start img \<le> y"
    "y \<noteq> text_area_y_start img + int (nat (text_area_height img))"
    using assms(3) by simp_all
  then show ?thesis
    unfolding gradient_def
    using fold_strip_pix [OF assms(1,2) order_refl, of avg bl x y] by simp
qed

lemma remove_text_frame:
  assumes "remove_text_from_image img t = Inr r" and "y < text_area_y_start img"
  shows "pix r x y = pix img x y \<and> alpha r = alpha img \<and> width r = width img
           \<and> height r = height img \<and> mode r = mode img"
proof -
  from remove_text_cases [OF assms(1)] obtain avg where
    r: "r = rectangle img (0, text_area_y_start img) (width img, height img) avg \<or>
      (\<exists>bl. r = gradient img avg bl
                 (rectangle img (0, text_area_y_start img) (width img, height img) avg))"
    by blast
  let ?d = "rectangle img (0, text_area_y_start img) (width img, height img) avg"
  have d: "pix ?d x y = pix img x y"
    using assms(2) by (simp add: pix_rectangle)
  from r show ?thesis
  proof
    assume "r = ?d"
    with d show ?thesis by simp
  next
    assume "\<exists>bl. r = gradient img avg bl ?d"
    then obtain bl where "r = gradient img avg bl ?d" ..
    moreover have "pix (gradient img avg bl ?d) x y = pix ?d x y"
      using assms(2) by (intro gradient_above) simp_all
    ultimately show ?thesis using d by simp
  qed
qed

lemma card_avg: "avg_color card = Inr (2, 5, 100)"
  by code_simp

lemma card_start: "text_area_y_start card = 6"
  by (simp add: text_area_y_start_def text_area_height_def card_def py_int_def)

lemma card_erased:
  "remove_text_from_image card t = Inr (rectangle card (0, 6) (8, 40) (2, 5, 100))"
proof -
  have "width card = 8" "height card = 40" by (simp_all add: card_def)
  then show ?thesis
    by (simp add: remove_text_from_image_def card_avg card_start)
qed

text \<open>
  C9. When the Text Eraser returns, every pixel in a row above the band start
  (\<open>y < text_area_y_start img\<close>, that is \<open>height - int(0.12 * height) - 30\<close>) is the
  pixel of the input, and the size, the mode and the alpha raster are those of the
  input: only the band is drawn on.
\<close>

theorem remove_text_from_image_frame:
  assumes "remove_text_from_image img t = Inr r" and "y < text_area_y_start img"
  shows "pix r x y = pix img x y \<and> alpha r = alpha img \<and> width r = width img
           \<and> height r = height img \<and> mode r = mode img"
  using assms by (rule remove_text_frame)

theorem remove_text_from_image_frame_witness:
  "remove_text_from_image card ''and happy newyear''
     = Inr (rectangle card (0, 6) (8, 40) (2, 5, 100))
   \<and> 5 < text_area_y_start card
   \<and> pix (rectangle card (0, 6) (8, 40) (2, 5, 100)) 3 5 = (5, 10, 100)"
proof -
  have above: "5 < text_area_y_start card" by (simp add: card_start)
  have "pix card 3 5 = (5, 10, 100)" by (simp add: card_def)
  with remove_text_from_image_frame [where img = card and y = 5 and x = 3,
      OF card_erased above]
  show ?thesis using above by (simp add: card_erased)
qed

end
